theory Spec2Isabelle
  imports Main
begin

section \<open>The Pinecone search tool (api/app/clients/tools/TNGDSearch.js)\<close>

text \<open>
  The class \<^verbatim>\<open>TNGDSearch\<close> has a constructor and two asynchronous methods,
  \<^verbatim>\<open>queryToEmbeddings\<close> and \<^verbatim>\<open>_call\<close>. Everything else it touches is imported:
  the Azure OpenAI client, the Pinecone client, the zod schema library and the logger.
  The imported constructors and methods are parameters of the model (records of
  functions that either throw or return), a thrown error or a rejected promise is the
  left summand of a sum, and the calls a method makes to the two services and to
  \<^verbatim>\<open>logger.error\<close> are returned as a list of events, in the order they are made.
\<close>

subsection \<open>JavaScript values\<close>

text \<open>
  What can be thrown: \<^verbatim>\<open>new Error(message)\<close>, the engine's \<^verbatim>\<open>TypeError\<close> for a property
  read on \<^verbatim>\<open>undefined\<close>, and zod's \<^verbatim>\<open>ZodError\<close> with the path of the offending value.
  The imported code throws values of the same type.
\<close>

datatype js_error = Error string | TypeError | ZodError "string list"

text \<open>
  The argument of \<^verbatim>\<open>_call\<close> is any JavaScript value. Numbers are never inspected by the
  tool, so their carrier is a type parameter. An object is the list of its own
  properties; a property that is not listed reads as \<^verbatim>\<open>undefined\<close>.
\<close>

datatype 'n jsval =
    JUndefined
  | JNull
  | JBool bool
  | JNum 'n
  | JStr string
  | JArr "'n jsval list"
  | JObj "(string \<times> 'n jsval) list"

text \<open>
  A value that is a string or \<^verbatim>\<open>undefined\<close> (\<open>None\<close>): a configuration override, an
  environment variable, a metadata field. \<^verbatim>\<open>fields\<close> and \<^verbatim>\<open>process.env\<close> are objects whose
  properties are such values.
\<close>

type_synonym jsstr = "string option"

type_synonym jsdict = "string \<Rightarrow> jsstr"

text \<open>Truthiness: \<^verbatim>\<open>undefined\<close> and the empty string are falsy, every other string is truthy.\<close>

definition truthy :: "jsstr \<Rightarrow> bool" where
  "truthy v = (case v of None \<Rightarrow> False | Some s \<Rightarrow> s \<noteq> [])"

text \<open>The operator \<^verbatim>\<open>a || b\<close>: \<^verbatim>\<open>a\<close> when it is truthy, \<^verbatim>\<open>b\<close> otherwise.\<close>

definition js_or :: "jsstr \<Rightarrow> jsstr \<Rightarrow> jsstr" where
  "js_or a b = (if truthy a then a else b)"

text \<open>A template-literal substitution \<^verbatim>\<open>${v}\<close>: the string itself, or the text \<^verbatim>\<open>undefined\<close>.\<close>

definition template :: "jsstr \<Rightarrow> string" where
  "template v = (case v of None \<Rightarrow> ''undefined'' | Some s \<Rightarrow> s)"

subsection \<open>The imported clients\<close>

text \<open>
  The embedding service answers \<^verbatim>\<open>getEmbeddings(model, input)\<close> with an object whose
  \<^verbatim>\<open>data\<close> is an array of items, each holding an \<^verbatim>\<open>embedding\<close>. The vector is opaque
  (type \<open>'v\<close>): the tool only passes it on.
\<close>

record 'v embedding_item =
  embedding :: 'v

record 'v embeddings =
  data :: "'v embedding_item list"

record 'v openai_client =
  getEmbeddings :: "string \<Rightarrow> string \<Rightarrow> js_error + 'v embeddings"

text \<open>
  The vector index answers \<^verbatim>\<open>query({vector, topK, includeMetadata})\<close> with an object whose
  \<^verbatim>\<open>matches\<close> is an array of records. A record's \<^verbatim>\<open>metadata\<close> is optional in the Pinecone
  client's types; when present it is an object of string fields.
\<close>

record 'v query_options =
  vector :: 'v
  topK :: nat
  includeMetadata :: bool

record scored_record =
  metadata :: "jsdict option"

record query_response =
  matches :: "scored_record list"

record 'v pinecone_index =
  query :: "'v query_options \<Rightarrow> js_error + query_response"

record 'v pinecone_client =
  client_index :: "jsstr \<Rightarrow> js_error + 'v pinecone_index"

text \<open>
  The three imported constructors: \<^verbatim>\<open>new AzureKeyCredential(key)\<close>,
  \<^verbatim>\<open>new OpenAIClient(host, credential)\<close> and \<^verbatim>\<open>new Pinecone({apiKey})\<close>.
\<close>

record ('c, 'v) modules =
  AzureKeyCredential :: "jsstr \<Rightarrow> js_error + 'c"
  OpenAIClient :: "jsstr \<Rightarrow> 'c \<Rightarrow> js_error + 'v openai_client"
  Pinecone :: "jsstr \<Rightarrow> js_error + 'v pinecone_client"

subsection \<open>The constructor\<close>

record 'v tool =
  name :: string
  description :: string
  pineconeApiKey :: jsstr
  pineconeIndex :: jsstr
  openAIApiKey :: jsstr
  openAIHost :: jsstr
  openAIClient :: "'v openai_client"
  client :: "'v pinecone_client"
  index :: "'v pinecone_index"

definition DEFAULT_PINECONE_INDEX :: string where
  "DEFAULT_PINECONE_INDEX = ''large-index''"

text \<open>Lines 20 to 26: the four configuration values, from \<^verbatim>\<open>fields\<close> and \<^verbatim>\<open>process.env\<close>.\<close>

definition resolve_pineconeApiKey :: "jsdict \<Rightarrow> jsdict \<Rightarrow> jsstr" where
  "resolve_pineconeApiKey flds env =
     js_or (flds ''PINECONE_PROJECT_API_KEY'') (env ''PINECONE_PROJECT_API_KEY'')"

definition resolve_pineconeIndex :: "jsdict \<Rightarrow> jsdict \<Rightarrow> jsstr" where
  "resolve_pineconeIndex flds env =
     js_or (js_or (flds ''PINECONE_INDEX_NAME'') (env ''PINECONE_INDEX_NAME''))
       (Some DEFAULT_PINECONE_INDEX)"

definition resolve_openAIApiKey :: "jsdict \<Rightarrow> jsdict \<Rightarrow> jsstr" where
  "resolve_openAIApiKey flds env = js_or (flds ''AZURE_API_KEY'') (env ''AZURE_API_KEY'')"

definition resolve_openAIHost :: "jsdict \<Rightarrow> jsdict \<Rightarrow> jsstr" where
  "resolve_openAIHost flds env = js_or (flds ''AZURE_HOST'') (env ''AZURE_HOST'')"

text \<open>
  \<^verbatim>\<open>constructor(fields = {})\<close>: an omitted argument is the empty object. The OpenAI
  client is built first (lines 28 to 31), then the two keys are checked (lines 33 to
  39), then the Pinecone client and its index handle are built (lines 42 to 48). The
  \<^verbatim>\<open>logger.info\<close> calls and the call of the base class's constructor have no effect on
  the outcome and are left out. The field \<^verbatim>\<open>schema\<close> is the same for every tool; it is
  the function \<open>schema_parse\<close> below.
\<close>

definition default_fields :: "jsdict option \<Rightarrow> jsdict" where
  "default_fields fields_arg = (case fields_arg of None \<Rightarrow> Map.empty | Some f \<Rightarrow> f)"

definition constructor ::
  "('c, 'v) modules \<Rightarrow> jsdict option \<Rightarrow> jsdict \<Rightarrow> js_error + 'v tool" where
  "constructor m fields_arg env =
     (let flds = default_fields fields_arg;
          pkey = resolve_pineconeApiKey flds env;
          pindex = resolve_pineconeIndex flds env;
          okey = resolve_openAIApiKey flds env;
          ohost = resolve_openAIHost flds env
      in case AzureKeyCredential m okey of
           Inl e \<Rightarrow> Inl e
         | Inr cred \<Rightarrow>
        (case OpenAIClient m ohost cred of
           Inl e \<Rightarrow> Inl e
         | Inr oc \<Rightarrow>
        if \<not> truthy pkey
          then Inl (Error ''Missing PINECONE_PROJECT_API_KEY environment variable.'')
        else if \<not> truthy okey
          then Inl (Error ''Missing OPENAI_API_KEY environment variable.'')
        else
        (case Pinecone m pkey of
           Inl e \<Rightarrow> Inl e
         | Inr pc \<Rightarrow>
        (case client_index pc pindex of
           Inl e \<Rightarrow> Inl e
         | Inr ix \<Rightarrow>
           Inr \<lparr> name = ''pinecone'',
                 description = ''Retrieve relevant information from a Pinecone vector database based on query embeddings.'',
                 pineconeApiKey = pkey,
                 pineconeIndex = pindex,
                 openAIApiKey = okey,
                 openAIHost = ohost,
                 openAIClient = oc,
                 client = pc,
                 index = ix \<rparr>))))"

subsection \<open>The schema\<close>

text \<open>
  \<^verbatim>\<open>z.object({ query: z.string() }).parse(data)\<close>: the value must be an object (not
  \<^verbatim>\<open>null\<close>, not an array) and its \<^verbatim>\<open>query\<close> property a string; anything else throws a
  \<^verbatim>\<open>ZodError\<close> whose issue carries the path of the offending value. Nothing is asked of
  the string's length.
\<close>

fun schema_parse :: "'n jsval \<Rightarrow> js_error + string" where
  "schema_parse (JObj props) =
     (case map_of props ''query'' of
        Some (JStr s) \<Rightarrow> Inr s
      | _ \<Rightarrow> Inl (ZodError [''query'']))"
| "schema_parse _ = Inl (ZodError [])"

subsection \<open>queryToEmbeddings and _call\<close>

text \<open>The calls a method makes, in order.\<close>

datatype 'v event =
    CallGetEmbeddings string string
  | CallQuery "'v query_options"
  | LoggerError string js_error

text \<open>
  \<^verbatim>\<open>queryToEmbeddings(query)\<close>: one call to the embedding service, then
  \<^verbatim>\<open>data.data[0].embedding\<close>; on an empty array \<^verbatim>\<open>data.data[0]\<close> is \<^verbatim>\<open>undefined\<close> and the
  property read throws a \<^verbatim>\<open>TypeError\<close>.
\<close>

definition queryToEmbeddings :: "'v tool \<Rightarrow> string \<Rightarrow> 'v event list \<times> (js_error + 'v)" where
  "queryToEmbeddings t q =
     ([CallGetEmbeddings ''text-embedding-3-large'' q],
      case getEmbeddings (openAIClient t) ''text-embedding-3-large'' q of
        Inl e \<Rightarrow> Inl e
      | Inr d \<Rightarrow>
          (case data d of
             [] \<Rightarrow> Inl TypeError
           | x # _ \<Rightarrow> Inr (embedding x)))"

text \<open>The template literal of line 83, for the metadata object of one match.\<close>

definition fragment :: "jsdict \<Rightarrow> string" where
  "fragment md =
     ''Page Title: '' @ template (md ''page_title'') @ '' Content: ''
       @ template (md ''content'') @ '' ''"

text \<open>
  The loop of lines 79 to 84 over \<^verbatim>\<open>results.matches\<close>, on the pair
  \<^verbatim>\<open>(resultString, firstResult)\<close>. Reading \<^verbatim>\<open>result.metadata.page_title\<close> on a record
  without metadata throws a \<^verbatim>\<open>TypeError\<close>.
\<close>

fun format_matches ::
  "scored_record list \<Rightarrow> string \<times> scored_record option \<Rightarrow>
     js_error + string \<times> scored_record option" where
  "format_matches [] acc = Inr acc"
| "format_matches (result # rest) (resultString, firstResult) =
     (let firstResult' = (if firstResult = None then Some result else firstResult)
      in case metadata result of
           None \<Rightarrow> Inl TypeError
         | Some md \<Rightarrow>
             format_matches rest (resultString @ fragment md, firstResult'))"

text \<open>The body of the \<^verbatim>\<open>try\<close> block, lines 68 to 88.\<close>

definition call_try :: "'v tool \<Rightarrow> string \<Rightarrow> 'v event list \<times> (js_error + string)" where
  "call_try t q =
     (case queryToEmbeddings t q of
        (evs, Inl e) \<Rightarrow> (evs, Inl e)
      | (evs, Inr embeddings) \<Rightarrow>
          (let opts = \<lparr> vector = embeddings, topK = 3, includeMetadata = True \<rparr>
           in case query (index t) opts of
                Inl e \<Rightarrow> (evs @ [CallQuery opts], Inl e)
              | Inr results \<Rightarrow>
                  (evs @ [CallQuery opts],
                   case format_matches (matches results) ('''', None) of
                     Inl e \<Rightarrow> Inl e
                   | Inr (resultString, firstResult) \<Rightarrow>
                       if firstResult = None
                       then Inr ''No results found for the query.''
                       else Inr resultString)))"

text \<open>
  \<^verbatim>\<open>_call(data)\<close>, here \<open>call\<close>: the schema is applied outside the \<^verbatim>\<open>try\<close> block, so
  its error reaches the caller (the promise is rejected); an error inside the block is
  logged and replaced by a fixed text.
\<close>

definition call :: "'v tool \<Rightarrow> 'n jsval \<Rightarrow> 'v event list \<times> (js_error + string)" where
  "call t input =
     (case schema_parse input of
        Inl e \<Rightarrow> ([], Inl e)
      | Inr q \<Rightarrow>
          (case call_try t q of
             (evs, Inl error) \<Rightarrow>
               (evs @ [LoggerError ''Pinecone search request failed'' error],
                Inr ''There was an error with the Pinecone search.'')
           | (evs, Inr s) \<Rightarrow> (evs, Inr s)))"

text \<open>The options of the vector-index queries among the calls made.\<close>

fun queries :: "'v event list \<Rightarrow> 'v query_options list" where
  "queries [] = []"
| "queries (CallQuery opts # evs) = opts # queries evs"
| "queries (_ # evs) = queries evs"

subsection \<open>Test doubles\<close>

text \<open>
  Clients whose methods give a fixed answer, for evaluating the methods on concrete
  inputs. The credential double refuses an empty key, as \<^verbatim>\<open>AzureKeyCredential\<close> of
  \<^verbatim>\<open>@azure/core-auth\<close> does.
\<close>

definition stub_openai :: "(js_error + int list embeddings) \<Rightarrow> int list openai_client" where
  "stub_openai answer = \<lparr> getEmbeddings = (\<lambda>model input. answer) \<rparr>"

definition stub_index :: "(js_error + query_response) \<Rightarrow> int list pinecone_index" where
  "stub_index answer = \<lparr> query = (\<lambda>opts. answer) \<rparr>"

definition stub_client :: "(js_error + query_response) \<Rightarrow> int list pinecone_client" where
  "stub_client answer = \<lparr> client_index = (\<lambda>indexName. Inr (stub_index answer)) \<rparr>"

definition stub_modules ::
  "(js_error + int list embeddings) \<Rightarrow> (js_error + query_response) \<Rightarrow> (string, int list) modules" where
  "stub_modules emb_answer query_answer =
     \<lparr> AzureKeyCredential =
         (\<lambda>key. case key of
            None \<Rightarrow> Inl (Error ''key must be a non-empty string'')
          | Some k \<Rightarrow> if k = [] then Inl (Error ''key must be a non-empty string'') else Inr k),
       OpenAIClient = (\<lambda>host cred. Inr (stub_openai emb_answer)),
       Pinecone = (\<lambda>apiKey. Inr (stub_client query_answer)) \<rparr>"

definition stub_tool ::
  "(js_error + int list embeddings) \<Rightarrow> (js_error + query_response) \<Rightarrow> int list tool" where
  "stub_tool emb_answer query_answer =
     \<lparr> name = ''pinecone'',
       description = ''Retrieve relevant information from a Pinecone vector database based on query embeddings.'',
       pineconeApiKey = Some ''pinecone-key'',
       pineconeIndex = Some ''large-index'',
       openAIApiKey = Some ''azure-key'',
       openAIHost = Some ''https://example.openai.azure.com'',
       openAIClient = stub_openai emb_answer,
       client = stub_client query_answer,
       index = stub_index query_answer \<rparr>"

definition one_embedding :: "js_error + int list embeddings" where
  "one_embedding = Inr \<lparr> data = [\<lparr> embedding = [1, 2] \<rparr>] \<rparr>"

definition paris_matches :: "js_error + query_response" where
  "paris_matches =
     Inr \<lparr> matches =
       [\<lparr> metadata = Some [''page_title'' \<mapsto> ''Paris'', ''content'' \<mapsto> ''Paris is the capital.''] \<rparr>,
        \<lparr> metadata = Some [''page_title'' \<mapsto> ''France'', ''content'' \<mapsto> ''France is a country.''] \<rparr>] \<rparr>"

definition no_matches :: "js_error + query_response" where
  "no_matches = Inr \<lparr> matches = [] \<rparr>"

definition service_down :: "js_error + 'a" where
  "service_down = Inl (Error ''503 Service Unavailable'')"

text \<open>An environment that sets the two keys and nothing else.\<close>

definition keys_env :: jsdict where
  "keys_env = [''PINECONE_PROJECT_API_KEY'' \<mapsto> ''pinecone-key'', ''AZURE_API_KEY'' \<mapsto> ''azure-key'']"

text \<open>Two matches whose metadata lack fields: the first has no \<^verbatim>\<open>content\<close>, the second neither field.\<close>

definition sparse_matches :: "js_error + query_response" where
  "sparse_matches =
     Inr \<lparr> matches =
       [\<lparr> metadata = Some [''page_title'' \<mapsto> ''Paris''] \<rparr>,
        \<lparr> metadata = Some Map.empty \<rparr>] \<rparr>"

section \<open>Properties\<close>

subsection \<open>Auxiliary facts\<close>

lemma truthy_simps [simp]:
  "truthy None = False" "truthy (Some s) = (s \<noteq> [])"
  by (simp_all add: truthy_def)

lemma format_matches_metadata:
  "map metadata rs = map Some mds \<Longrightarrow>
   format_matches rs (acc, fr) =
     Inr (acc @ concat (map fragment mds),
          if fr = None then (case rs of [] \<Rightarrow> None | r # _ \<Rightarrow> Some r) else fr)"
proof (induction rs arbitrary: mds acc fr)
  case Nil
  then show ?case by simp
next
  case (Cons r rs)
  then obtain md mds' where mds: "mds = md # mds'" "metadata r = Some md"
    "map metadata rs = map Some mds'"
    by (cases mds) auto
  show ?case
    using Cons.IH [OF mds(3)] mds(1,2) by (simp add: Let_def)
qed

lemma call_try_success:
  assumes "getEmbeddings (openAIClient t) ''text-embedding-3-large'' q = Inr d"
    and "data d = x # xs"
    and "query (index t) \<lparr> vector = embedding x, topK = 3, includeMetadata = True \<rparr> = Inr results"
    and "map metadata (matches results) = map Some mds"
  shows "call_try t q =
    ([CallGetEmbeddings ''text-embedding-3-large'' q,
      CallQuery \<lparr> vector = embedding x, topK = 3, includeMetadata = True \<rparr>],
     if mds = [] then Inr ''No results found for the query.''
     else Inr (concat (map fragment mds)))"
proof -
  have fm: "format_matches (matches results) ('''', None) =
      Inr (concat (map fragment mds),
           case matches results of [] \<Rightarrow> None | r # _ \<Rightarrow> Some r)"
    using format_matches_metadata [OF assms(4), of "''''" None] by simp
  show ?thesis
    using assms(1,2,3,4) fm
    by (cases "matches results"; cases mds) (simp_all add: call_try_def queryToEmbeddings_def Let_def)
qed

lemma stub_simps [simp]:
  "getEmbeddings (openAIClient (stub_tool ea qa)) model input = ea"
  "query (index (stub_tool ea qa)) opts = qa"
  by (simp_all add: stub_tool_def stub_openai_def stub_index_def)

lemma list_all2_metadata:
  "list_all2 (\<lambda>r tc. \<exists>md. metadata r = Some md \<and> md ''page_title'' = Some (fst tc)
       \<and> md ''content'' = Some (snd tc)) rs tcs \<Longrightarrow>
   \<exists>mds. map metadata rs = map Some mds \<and>
     map fragment mds =
       map (\<lambda>tc. ''Page Title: '' @ fst tc @ '' Content: '' @ snd tc @ '' '') tcs"
proof (induction rule: list_all2_induct)
  case Nil
  then show ?case by simp
next
  case (Cons r rs tc tcs)
  then obtain md mds where "metadata r = Some md" "md ''page_title'' = Some (fst tc)"
    "md ''content'' = Some (snd tc)" "map metadata rs = map Some mds"
    "map fragment mds = map (\<lambda>tc. ''Page Title: '' @ fst tc @ '' Content: '' @ snd tc @ '' '') tcs"
    by blast
  then have "map metadata (r # rs) = map Some (md # mds) \<and>
     map fragment (md # mds) =
       map (\<lambda>tc. ''Page Title: '' @ fst tc @ '' Content: '' @ snd tc @ '' '') (tc # tcs)"
    by (simp add: fragment_def template_def)
  then show ?case by blast
qed

subsection \<open>Formatting the matches\<close>

text \<open>
  C1. When the input passes the schema, the embedding service returns a response with
  a first item, and the vector index answers the query with N matches, N at least 1,
  whose metadata hold the strings \<open>title\<close> and \<open>content\<close> under \<^verbatim>\<open>page_title\<close> and
  \<^verbatim>\<open>content\<close>, then \<^verbatim>\<open>_call\<close> returns exactly the concatenation, in the order the matches
  were received, of the fragments \<^verbatim>\<open>Page Title: {title} Content: {content} \<close>, each with
  its trailing space, and nothing else.
\<close>

theorem search_concatenates_matches:
  assumes "schema_parse input = Inr q"
    and "getEmbeddings (openAIClient t) ''text-embedding-3-large'' q = Inr d"
    and "data d = x # xs"
    and "query (index t) \<lparr> vector = embedding x, topK = 3, includeMetadata = True \<rparr> = Inr results"
    and "matches results \<noteq> []"
    and "list_all2 (\<lambda>r tc. \<exists>md. metadata r = Some md \<and> md ''page_title'' = Some (fst tc)
           \<and> md ''content'' = Some (snd tc)) (matches results) tcs"
  shows "snd (call t input) =
    Inr (concat (map (\<lambda>tc. ''Page Title: '' @ fst tc @ '' Content: '' @ snd tc @ '' '') tcs))"
proof -
  obtain mds where mds: "map metadata (matches results) = map Some mds"
    "map fragment mds = map (\<lambda>tc. ''Page Title: '' @ fst tc @ '' Content: '' @ snd tc @ '' '') tcs"
    using list_all2_metadata [OF assms(6)] by blast
  have "mds \<noteq> []"
    using mds(1) assms(5) by auto
  then show ?thesis
    using call_try_success [OF assms(2,3,4) mds(1)] assms(1) mds(2)
    by (simp add: call_def)
qed

text \<open>
  The scenario of the specification: the query \<^verbatim>\<open>capital of France\<close> and the two
  matches Paris and France.
\<close>

theorem search_concatenates_matches_witness:
  "snd (call (stub_tool one_embedding paris_matches) (JObj [(''query'', JStr ''capital of France'')] :: unit jsval)) =
     Inr ''Page Title: Paris Content: Paris is the capital. Page Title: France Content: France is a country. ''"
proof -
  let ?t = "stub_tool one_embedding paris_matches"
  let ?rs = "\<lparr> matches =
       [\<lparr> metadata = Some [''page_title'' \<mapsto> ''Paris'', ''content'' \<mapsto> ''Paris is the capital.''] \<rparr>,
        \<lparr> metadata = Some [''page_title'' \<mapsto> ''France'', ''content'' \<mapsto> ''France is a country.''] \<rparr>] \<rparr>"
  have h1: "schema_parse (JObj [(''query'', JStr ''capital of France'')] :: unit jsval) = Inr ''capital of France''"
    by simp
  have h2: "getEmbeddings (openAIClient ?t) ''text-embedding-3-large'' ''capital of France''
      = Inr \<lparr> data = [\<lparr> embedding = [1, 2] \<rparr>] \<rparr>"
    by (simp add: one_embedding_def)
  have h3: "data \<lparr> data = [\<lparr> embedding = [1, 2 :: int] \<rparr>] \<rparr> = \<lparr> embedding = [1, 2] \<rparr> # []"
    by simp
  have h4: "query (index ?t) \<lparr> vector = embedding \<lparr> embedding = [1, 2 :: int] \<rparr>, topK = 3, includeMetadata = True \<rparr>
      = Inr ?rs"
    by (simp add: paris_matches_def)
  have h5: "matches ?rs \<noteq> []"
    by simp
  have h6: "list_all2 (\<lambda>r tc. \<exists>md. metadata r = Some md \<and> md ''page_title'' = Some (fst tc)
           \<and> md ''content'' = Some (snd tc)) (matches ?rs)
        [(''Paris'', ''Paris is the capital.''), (''France'', ''France is a country.'')]"
    by simp
  show ?thesis
    using search_concatenates_matches [OF h1 h2 h3 h4 h5 h6] by simp
qed

subsection \<open>Service failures\<close>

lemma call_try_embedding_error:
  assumes "getEmbeddings (openAIClient t) ''text-embedding-3-large'' q = Inl e"
  shows "call_try t q = ([CallGetEmbeddings ''text-embedding-3-large'' q], Inl e)"
  using assms by (simp add: call_try_def queryToEmbeddings_def)

lemma call_try_query_error:
  assumes "getEmbeddings (openAIClient t) ''text-embedding-3-large'' q = Inr d"
    and "data d = x # xs"
    and "query (index t) \<lparr> vector = embedding x, topK = 3, includeMetadata = True \<rparr> = Inl e"
  shows "call_try t q =
    ([CallGetEmbeddings ''text-embedding-3-large'' q,
      CallQuery \<lparr> vector = embedding x, topK = 3, includeMetadata = True \<rparr>], Inl e)"
  using assms by (simp add: call_try_def queryToEmbeddings_def Let_def)

text \<open>
  C2. When the input passes the schema and the embedding call raises, or the embedding
  call returns a vector and the vector-index query raises, \<^verbatim>\<open>_call\<close> does not raise: it
  returns exactly the text \<^verbatim>\<open>There was an error with the Pinecone search.\<close>, and the last
  thing it does is to log the error.
\<close>

theorem search_service_error_sentinel:
  assumes "schema_parse input = Inr q"
    and "(\<exists>e. getEmbeddings (openAIClient t) ''text-embedding-3-large'' q = Inl e) \<or>
         (\<exists>d x xs e. getEmbeddings (openAIClient t) ''text-embedding-3-large'' q = Inr d
            \<and> data d = x # xs
            \<and> query (index t) \<lparr> vector = embedding x, topK = 3, includeMetadata = True \<rparr> = Inl e)"
  shows "snd (call t input) = Inr ''There was an error with the Pinecone search.'' \<and>
         (\<exists>e. last (fst (call t input)) = LoggerError ''Pinecone search request failed'' e)"
  using assms(2)
proof (elim disjE exE conjE)
  fix e
  assume "getEmbeddings (openAIClient t) ''text-embedding-3-large'' q = Inl e"
  then show ?thesis
    using assms(1) by (simp add: call_def call_try_embedding_error)
next
  fix d x xs e
  assume "getEmbeddings (openAIClient t) ''text-embedding-3-large'' q = Inr d"
    and "data d = x # xs"
    and "query (index t) \<lparr> vector = embedding x, topK = 3, includeMetadata = True \<rparr> = Inl e"
  then show ?thesis
    using assms(1) by (simp add: call_def call_try_query_error)
qed

text \<open>
  Both cases on the test doubles: the embedding service is down, and the vector index
  is down.
\<close>

theorem search_service_error_sentinel_witness:
  "snd (call (stub_tool service_down paris_matches) (JObj [(''query'', JStr ''capital of France'')] :: unit jsval))
     = Inr ''There was an error with the Pinecone search.'' \<and>
   snd (call (stub_tool one_embedding service_down) (JObj [(''query'', JStr ''capital of France'')] :: unit jsval))
     = Inr ''There was an error with the Pinecone search.''"
proof -
  let ?input = "JObj [(''query'', JStr ''capital of France'')] :: unit jsval"
  have p: "schema_parse ?input = Inr ''capital of France''"
    by simp
  have a: "(\<exists>e. getEmbeddings (openAIClient (stub_tool service_down paris_matches))
              ''text-embedding-3-large'' ''capital of France'' = Inl e) \<or>
         (\<exists>d x xs e. getEmbeddings (openAIClient (stub_tool service_down paris_matches))
              ''text-embedding-3-large'' ''capital of France'' = Inr d
            \<and> data d = x # xs
            \<and> query (index (stub_tool service_down paris_matches))
                 \<lparr> vector = embedding x, topK = 3, includeMetadata = True \<rparr> = Inl e)"
    by (simp add: service_down_def)
  have b: "(\<exists>e. getEmbeddings (openAIClient (stub_tool one_embedding service_down))
              ''text-embedding-3-large'' ''capital of France'' = Inl e) \<or>
         (\<exists>d x xs e. getEmbeddings (openAIClient (stub_tool one_embedding service_down))
              ''text-embedding-3-large'' ''capital of France'' = Inr d
            \<and> data d = x # xs
            \<and> query (index (stub_tool one_embedding service_down))
                 \<lparr> vector = embedding x, topK = 3, includeMetadata = True \<rparr> = Inl e)"
    by (simp add: service_down_def one_embedding_def)
  show ?thesis
    using search_service_error_sentinel [OF p a] search_service_error_sentinel [OF p b]
    by simp
qed

subsection \<open>No matches\<close>

text \<open>
  C3. When the vector-index query returns zero matches, \<^verbatim>\<open>_call\<close> returns exactly the
  text \<^verbatim>\<open>No results found for the query.\<close>.
\<close>

theorem search_no_matches:
  assumes "schema_parse input = Inr q"
    and "getEmbeddings (openAIClient t) ''text-embedding-3-large'' q = Inr d"
    and "data d = x # xs"
    and "query (index t) \<lparr> vector = embedding x, topK = 3, includeMetadata = True \<rparr> = Inr results"
    and "matches results = []"
  shows "snd (call t input) = Inr ''No results found for the query.''"
proof -
  have "map metadata (matches results) = map Some []"
    using assms(5) by simp
  from call_try_success [OF assms(2,3,4) this] show ?thesis
    using assms(1) by (simp add: call_def)
qed

theorem search_no_matches_witness:
  "snd (call (stub_tool one_embedding no_matches) (JObj [(''query'', JStr ''capital of Atlantis'')] :: unit jsval))
     = Inr ''No results found for the query.''"
proof -
  let ?t = "stub_tool one_embedding no_matches"
  have h1: "schema_parse (JObj [(''query'', JStr ''capital of Atlantis'')] :: unit jsval)
      = Inr ''capital of Atlantis''"
    by simp
  have h2: "getEmbeddings (openAIClient ?t) ''text-embedding-3-large'' ''capital of Atlantis''
      = Inr \<lparr> data = [\<lparr> embedding = [1, 2] \<rparr>] \<rparr>"
    by (simp add: one_embedding_def)
  have h3: "data \<lparr> data = [\<lparr> embedding = [1, 2 :: int] \<rparr>] \<rparr> = \<lparr> embedding = [1, 2] \<rparr> # []"
    by simp
  have h4: "query (index ?t) \<lparr> vector = embedding \<lparr> embedding = [1, 2 :: int] \<rparr>, topK = 3, includeMetadata = True \<rparr>
      = Inr \<lparr> matches = [] \<rparr>"
    by (simp add: no_matches_def)
  have h5: "matches \<lparr> matches = [] \<rparr> = []"
    by simp
  show ?thesis
    using search_no_matches [OF h1 h2 h3 h4 h5] by simp
qed

subsection \<open>Input validation\<close>

text \<open>
  C4. When the input object has no \<^verbatim>\<open>query\<close> property, or one that is not a string,
  \<^verbatim>\<open>_call\<close> raises the schema's error to the caller, not a fixed text, and makes no call
  at all: neither service is called, and nothing is logged.
\<close>

theorem search_invalid_input_raises:
  assumes "\<forall>s. map_of props ''query'' \<noteq> Some (JStr s)"
  shows "call t (JObj props) = ([], Inl (ZodError [''query'']))"
proof -
  have "schema_parse (JObj props) = Inl (ZodError [''query''])"
    using assms by (simp split: option.splits jsval.splits)
  then show ?thesis
    by (simp add: call_def)
qed

text \<open>
  An object without \<^verbatim>\<open>query\<close>, and an object whose \<^verbatim>\<open>query\<close> is a number.
\<close>

theorem search_invalid_input_raises_witness:
  "call (stub_tool one_embedding paris_matches) (JObj [] :: int jsval) = ([], Inl (ZodError [''query''])) \<and>
   call (stub_tool one_embedding paris_matches) (JObj [(''query'', JNum (42 :: int))]) = ([], Inl (ZodError [''query'']))"
proof -
  have a: "\<forall>s. map_of ([] :: (string \<times> int jsval) list) ''query'' \<noteq> Some (JStr s)"
    by simp
  have b: "\<forall>s. map_of [(''query'', JNum (42 :: int))] ''query'' \<noteq> Some (JStr s)"
    by simp
  show ?thesis
    using search_invalid_input_raises [OF a, of "stub_tool one_embedding paris_matches"]
      search_invalid_input_raises [OF b, of "stub_tool one_embedding paris_matches"]
    by simp
qed

subsection \<open>What the schema asks of the query\<close>

lemma call_reaches_embedding:
  assumes "schema_parse input = Inr q"
  shows "\<exists>rest. fst (call t input) = CallGetEmbeddings ''text-embedding-3-large'' q # rest"
  using assms
  by (simp add: call_def call_try_def queryToEmbeddings_def Let_def
      split: sum.splits list.splits prod.splits)

text \<open>
  C5, as amended. The schema asks only that \<^verbatim>\<open>query\<close> is a string: every input object
  whose \<^verbatim>\<open>query\<close> is a string, the empty string included, passes validation, and the
  first thing \<^verbatim>\<open>_call\<close> does is to call the embedding service with that string.
\<close>

theorem schema_accepts_any_string:
  assumes "map_of props ''query'' = Some (JStr s)"
  shows "schema_parse (JObj props) = Inr s \<and>
    (\<exists>rest. fst (call t (JObj props)) = CallGetEmbeddings ''text-embedding-3-large'' s # rest)"
proof -
  have p: "schema_parse (JObj props) = Inr s"
    using assms by simp
  from call_reaches_embedding [OF p] p show ?thesis
    by simp
qed

text \<open>
  At the empty string.
\<close>

theorem schema_accepts_any_string_witness:
  "schema_parse (JObj [(''query'', JStr '''')] :: unit jsval) = Inr '''' \<and>
    (\<exists>rest. fst (call (stub_tool one_embedding paris_matches) (JObj [(''query'', JStr '''')] :: unit jsval))
       = CallGetEmbeddings ''text-embedding-3-large'' '''' # rest)"
proof -
  have a: "map_of [(''query'', JStr '''' :: unit jsval)] ''query'' = Some (JStr '''')"
    by simp
  show ?thesis
    using schema_accepts_any_string [OF a, of "stub_tool one_embedding paris_matches"] by simp
qed

text \<open>
  C5 as stated fails: with \<^verbatim>\<open>query\<close> the empty string, the embedding service is called
  with the empty string, and the vector index is queried after it.
\<close>

theorem empty_query_reaches_embedding:
  "fst (call (stub_tool one_embedding paris_matches) (JObj [(''query'', JStr '''')] :: unit jsval)) =
     [CallGetEmbeddings ''text-embedding-3-large'' '''',
      CallQuery \<lparr> vector = [1, 2], topK = 3, includeMetadata = True \<rparr>]"
  by (simp add: call_def call_try_def queryToEmbeddings_def Let_def one_embedding_def
      paris_matches_def fragment_def template_def)

subsection \<open>Construction\<close>

text \<open>
  When the vector-database key has no override and no environment variable, or the
  embedding-service key has neither, no tool is created, whatever the imported
  constructors do. The error is one of the constructor's own two, or one thrown by the
  credential or the embedding client, which are built before the keys are checked.
\<close>

lemma constructor_missing_key_no_tool:
  assumes "(default_fields fields_arg ''PINECONE_PROJECT_API_KEY'' = None
              \<and> env ''PINECONE_PROJECT_API_KEY'' = None) \<or>
           (default_fields fields_arg ''AZURE_API_KEY'' = None \<and> env ''AZURE_API_KEY'' = None)"
  shows "\<exists>e. constructor m fields_arg env = Inl e \<and>
           (e = Error ''Missing PINECONE_PROJECT_API_KEY environment variable.'' \<or>
            e = Error ''Missing OPENAI_API_KEY environment variable.'' \<or>
            AzureKeyCredential m (resolve_openAIApiKey (default_fields fields_arg) env) = Inl e \<or>
            (\<exists>cred. OpenAIClient m (resolve_openAIHost (default_fields fields_arg) env) cred = Inl e))"
proof -
  have "\<not> truthy (resolve_pineconeApiKey (default_fields fields_arg) env) \<or>
        \<not> truthy (resolve_openAIApiKey (default_fields fields_arg) env)"
    using assms by (auto simp: resolve_pineconeApiKey_def resolve_openAIApiKey_def js_or_def)
  then show ?thesis
    by (auto simp: constructor_def Let_def split: sum.splits)
qed

text \<open>
  The vector-database key is checked (lines 33 to 35) before it is used (line 42): when
  it is absent and the credential and the embedding client have been built, the
  constructor throws its own configuration error.
\<close>

lemma constructor_missing_pinecone_key:
  assumes "\<not> truthy (resolve_pineconeApiKey (default_fields fields_arg) env)"
    and "AzureKeyCredential m (resolve_openAIApiKey (default_fields fields_arg) env) = Inr cred"
    and "OpenAIClient m (resolve_openAIHost (default_fields fields_arg) env) cred = Inr oc"
  shows "constructor m fields_arg env =
    Inl (Error ''Missing PINECONE_PROJECT_API_KEY environment variable.'')"
  using assms by (simp add: constructor_def Let_def)

text \<open>
  The embedding-service key is used (line 30) before it is checked (lines 37 to 39):
  an error thrown by the credential is the constructor's error, whatever the key. The
  constructor's own error for this key is thrown only when the credential and the
  client accept the absent key.
\<close>

lemma constructor_credential_error_first:
  assumes "AzureKeyCredential m (resolve_openAIApiKey (default_fields fields_arg) env) = Inl e"
  shows "constructor m fields_arg env = Inl e"
  using assms by (simp add: constructor_def Let_def)

lemma constructor_missing_openai_key_own_error:
  assumes "constructor m fields_arg env =
      Inl (Error ''Missing OPENAI_API_KEY environment variable.'')"
  shows "AzureKeyCredential m (resolve_openAIApiKey (default_fields fields_arg) env)
           = Inl (Error ''Missing OPENAI_API_KEY environment variable.'') \<or>
         (\<exists>cred. AzureKeyCredential m (resolve_openAIApiKey (default_fields fields_arg) env)
            = Inr cred)"
  by (cases "AzureKeyCredential m (resolve_openAIApiKey (default_fields fields_arg) env)")
    (use assms in \<open>simp_all add: constructor_def Let_def\<close>)

text \<open>
  C6 fails on the code for the embedding-service key. With the vector-database key set
  and no embedding-service key, the absent key is passed to \<^verbatim>\<open>AzureKeyCredential\<close>, which
  refuses it, and the constructor ends with the credential's error: the configuration
  error of lines 37 to 39 is not reached.
\<close>

theorem missing_openai_key_raises_credential_error:
  "constructor (stub_modules one_embedding paris_matches) None
     [''PINECONE_PROJECT_API_KEY'' \<mapsto> ''pinecone-key'']
     = Inl (Error ''key must be a non-empty string'')"
  by (simp add: constructor_def stub_modules_def default_fields_def Let_def js_or_def
      resolve_pineconeApiKey_def resolve_openAIApiKey_def)

subsection \<open>Resolution of the configuration\<close>

lemma constructor_stores_config:
  assumes "constructor m fields_arg env = Inr t"
  shows "pineconeApiKey t = resolve_pineconeApiKey (default_fields fields_arg) env \<and>
         pineconeIndex t = resolve_pineconeIndex (default_fields fields_arg) env \<and>
         openAIApiKey t = resolve_openAIApiKey (default_fields fields_arg) env \<and>
         openAIHost t = resolve_openAIHost (default_fields fields_arg) env"
  using assms
  by (auto simp: constructor_def Let_def split: sum.splits if_splits)

text \<open>
  C7, as amended. Each of the four values is the override when the override is a
  non-empty string, otherwise the environment variable when that is a non-empty string;
  when neither is, the index name is the built-in default \<^verbatim>\<open>large-index\<close> and each of the
  other three values is whatever the environment lookup gave (absent, or the empty
  string). A tool that was constructed holds these four values.
\<close>

theorem resolution_order:
  assumes "flds = default_fields fields_arg"
  shows
    "(truthy (flds ''PINECONE_PROJECT_API_KEY'') \<longrightarrow>
        resolve_pineconeApiKey flds env = flds ''PINECONE_PROJECT_API_KEY'') \<and>
     (\<not> truthy (flds ''PINECONE_PROJECT_API_KEY'') \<longrightarrow>
        resolve_pineconeApiKey flds env = env ''PINECONE_PROJECT_API_KEY'') \<and>
     (truthy (flds ''PINECONE_INDEX_NAME'') \<longrightarrow>
        resolve_pineconeIndex flds env = flds ''PINECONE_INDEX_NAME'') \<and>
     (\<not> truthy (flds ''PINECONE_INDEX_NAME'') \<and> truthy (env ''PINECONE_INDEX_NAME'') \<longrightarrow>
        resolve_pineconeIndex flds env = env ''PINECONE_INDEX_NAME'') \<and>
     (\<not> truthy (flds ''PINECONE_INDEX_NAME'') \<and> \<not> truthy (env ''PINECONE_INDEX_NAME'') \<longrightarrow>
        resolve_pineconeIndex flds env = Some ''large-index'') \<and>
     (truthy (flds ''AZURE_API_KEY'') \<longrightarrow>
        resolve_openAIApiKey flds env = flds ''AZURE_API_KEY'') \<and>
     (\<not> truthy (flds ''AZURE_API_KEY'') \<longrightarrow>
        resolve_openAIApiKey flds env = env ''AZURE_API_KEY'') \<and>
     (truthy (flds ''AZURE_HOST'') \<longrightarrow>
        resolve_openAIHost flds env = flds ''AZURE_HOST'') \<and>
     (\<not> truthy (flds ''AZURE_HOST'') \<longrightarrow>
        resolve_openAIHost flds env = env ''AZURE_HOST'') \<and>
     (\<forall>t. constructor m fields_arg env = Inr t \<longrightarrow>
        pineconeApiKey t = resolve_pineconeApiKey flds env \<and>
        pineconeIndex t = resolve_pineconeIndex flds env \<and>
        openAIApiKey t = resolve_openAIApiKey flds env \<and>
        openAIHost t = resolve_openAIHost flds env)"
proof -
  have "\<forall>t. constructor m fields_arg env = Inr t \<longrightarrow>
        pineconeApiKey t = resolve_pineconeApiKey flds env \<and>
        pineconeIndex t = resolve_pineconeIndex flds env \<and>
        openAIApiKey t = resolve_openAIApiKey flds env \<and>
        openAIHost t = resolve_openAIHost flds env"
    using constructor_stores_config [of m fields_arg env] assms by blast
  then show ?thesis
    by (simp add: resolve_pineconeApiKey_def resolve_pineconeIndex_def
        resolve_openAIApiKey_def resolve_openAIHost_def js_or_def DEFAULT_PINECONE_INDEX_def)
qed

text \<open>
  An override that wins over the environment, a value from the environment, the default
  index name, and the host left absent.
\<close>

theorem resolution_order_witness:
  "resolve_pineconeApiKey [''PINECONE_PROJECT_API_KEY'' \<mapsto> ''override-key'']
     [''PINECONE_PROJECT_API_KEY'' \<mapsto> ''env-key'', ''AZURE_API_KEY'' \<mapsto> ''azure-key'']
     = Some ''override-key'' \<and>
   resolve_openAIApiKey [''PINECONE_PROJECT_API_KEY'' \<mapsto> ''override-key'']
     [''PINECONE_PROJECT_API_KEY'' \<mapsto> ''env-key'', ''AZURE_API_KEY'' \<mapsto> ''azure-key'']
     = Some ''azure-key'' \<and>
   resolve_pineconeIndex [''PINECONE_PROJECT_API_KEY'' \<mapsto> ''override-key'']
     [''PINECONE_PROJECT_API_KEY'' \<mapsto> ''env-key'', ''AZURE_API_KEY'' \<mapsto> ''azure-key'']
     = Some ''large-index'' \<and>
   resolve_openAIHost [''PINECONE_PROJECT_API_KEY'' \<mapsto> ''override-key'']
     [''PINECONE_PROJECT_API_KEY'' \<mapsto> ''env-key'', ''AZURE_API_KEY'' \<mapsto> ''azure-key'']
     = None"
proof -
  let ?f = "[''PINECONE_PROJECT_API_KEY'' \<mapsto> ''override-key''] :: jsdict"
  let ?e = "[''PINECONE_PROJECT_API_KEY'' \<mapsto> ''env-key'', ''AZURE_API_KEY'' \<mapsto> ''azure-key''] :: jsdict"
  have a: "?f = default_fields (Some ?f)"
    by (simp add: default_fields_def)
  show ?thesis
    using resolution_order [OF a, of ?e "stub_modules one_embedding paris_matches"]
    by simp
qed

text \<open>
  C7 as stated fails: an empty override is supplied and not used (the environment
  variable is), and an environment variable set to the empty string is not used (the
  default is).
\<close>

theorem empty_override_not_used:
  "resolve_pineconeIndex [''PINECONE_INDEX_NAME'' \<mapsto> ''''] [''PINECONE_INDEX_NAME'' \<mapsto> ''docs'']
     = Some ''docs'' \<and>
   resolve_pineconeIndex Map.empty [''PINECONE_INDEX_NAME'' \<mapsto> ''''] = Some ''large-index''"
  by (simp add: resolve_pineconeIndex_def js_or_def DEFAULT_PINECONE_INDEX_def)

subsection \<open>The vector-index query\<close>

lemma queries_append: "queries (evs @ evs') = queries evs @ queries evs'"
  by (induction evs rule: queries.induct) simp_all

text \<open>
  No invocation queries the vector index twice. It is not queried at all when the input
  is refused or no vector is obtained.
\<close>

lemma search_at_most_one_query: "length (queries (fst (call t input))) \<le> 1"
  by (auto simp: call_def call_try_def queryToEmbeddings_def Let_def queries_append
      split: sum.splits list.splits prod.splits if_splits)

text \<open>
  C8. When the input passes the schema and the embedding service returns a response
  with a first item, \<^verbatim>\<open>queryToEmbeddings\<close> returns that item's vector, and \<^verbatim>\<open>_call\<close> issues
  exactly one vector-index query: with that vector, \<^verbatim>\<open>topK\<close> 3 and \<^verbatim>\<open>includeMetadata\<close> true.
\<close>

theorem search_issues_one_query:
  assumes "schema_parse input = Inr q"
    and "getEmbeddings (openAIClient t) ''text-embedding-3-large'' q = Inr d"
    and "data d = x # xs"
  shows "snd (queryToEmbeddings t q) = Inr (embedding x) \<and>
         queries (fst (call t input)) =
           [\<lparr> vector = embedding x, topK = 3, includeMetadata = True \<rparr>]"
proof -
  have e: "queryToEmbeddings t q =
      ([CallGetEmbeddings ''text-embedding-3-large'' q], Inr (embedding x))"
    using assms(2,3) by (simp add: queryToEmbeddings_def)
  obtain evs r where c: "call_try t q = (evs, r)"
    by (cases "call_try t q")
  have "evs = [CallGetEmbeddings ''text-embedding-3-large'' q,
      CallQuery \<lparr> vector = embedding x, topK = 3, includeMetadata = True \<rparr>]"
    using e c by (auto simp: call_try_def Let_def split: sum.splits)
  then have "queries (fst (call t input)) =
      [\<lparr> vector = embedding x, topK = 3, includeMetadata = True \<rparr>]"
    using assms(1) c by (cases r) (simp_all add: call_def queries_append)
  then show ?thesis
    using e by simp
qed

theorem search_issues_one_query_witness:
  "snd (queryToEmbeddings (stub_tool one_embedding paris_matches) ''capital of France'') = Inr [1, 2] \<and>
   queries (fst (call (stub_tool one_embedding paris_matches)
       (JObj [(''query'', JStr ''capital of France'')] :: unit jsval))) =
     [\<lparr> vector = [1, 2], topK = 3, includeMetadata = True \<rparr>]"
proof -
  let ?t = "stub_tool one_embedding paris_matches"
  have h1: "schema_parse (JObj [(''query'', JStr ''capital of France'')] :: unit jsval) = Inr ''capital of France''"
    by simp
  have h2: "getEmbeddings (openAIClient ?t) ''text-embedding-3-large'' ''capital of France''
      = Inr \<lparr> data = [\<lparr> embedding = [1, 2] \<rparr>] \<rparr>"
    by (simp add: one_embedding_def)
  have h3: "data \<lparr> data = [\<lparr> embedding = [1, 2 :: int] \<rparr>] \<rparr> = \<lparr> embedding = [1, 2] \<rparr> # []"
    by simp
  show ?thesis
    using search_issues_one_query [OF h1 h2 h3] by simp
qed

subsection \<open>Missing metadata fields\<close>

text \<open>
  C9. When the matches carry metadata objects, a metadata object that lacks
  \<^verbatim>\<open>page_title\<close> or \<^verbatim>\<open>content\<close> does not lead to the error text: \<^verbatim>\<open>_call\<close> returns the
  concatenated fragments, with the text \<^verbatim>\<open>undefined\<close> in place of each missing field.
\<close>

theorem search_missing_fields_undefined:
  assumes "schema_parse input = Inr q"
    and "getEmbeddings (openAIClient t) ''text-embedding-3-large'' q = Inr d"
    and "data d = x # xs"
    and "query (index t) \<lparr> vector = embedding x, topK = 3, includeMetadata = True \<rparr> = Inr results"
    and "matches results \<noteq> []"
    and "map metadata (matches results) = map Some mds"
  shows "snd (call t input) =
           Inr (concat (map (\<lambda>md.
             ''Page Title: '' @ (case md ''page_title'' of None \<Rightarrow> ''undefined'' | Some s \<Rightarrow> s)
               @ '' Content: '' @ (case md ''content'' of None \<Rightarrow> ''undefined'' | Some s \<Rightarrow> s)
               @ '' '') mds)) \<and>
         snd (call t input) \<noteq> Inr ''There was an error with the Pinecone search.''"
proof -
  obtain md mds' where mds: "mds = md # mds'"
    using assms(5,6) by (cases mds) auto
  have r: "snd (call t input) = Inr (concat (map fragment mds))"
    using call_try_success [OF assms(2,3,4,6)] assms(1) mds by (simp add: call_def)
  have f: "fragment = (\<lambda>md.
             ''Page Title: '' @ (case md ''page_title'' of None \<Rightarrow> ''undefined'' | Some s \<Rightarrow> s)
               @ '' Content: '' @ (case md ''content'' of None \<Rightarrow> ''undefined'' | Some s \<Rightarrow> s)
               @ '' '')"
    by (rule ext) (simp add: fragment_def template_def)
  have "concat (map fragment mds) \<noteq> ''There was an error with the Pinecone search.''"
    using mds by (simp add: fragment_def)
  then show ?thesis
    using r f by simp
qed

theorem search_missing_fields_undefined_witness:
  "snd (call (stub_tool one_embedding sparse_matches) (JObj [(''query'', JStr ''capital of France'')] :: unit jsval)) =
     Inr ''Page Title: Paris Content: undefined Page Title: undefined Content: undefined ''"
proof -
  let ?t = "stub_tool one_embedding sparse_matches"
  let ?rs = "\<lparr> matches =
       [\<lparr> metadata = Some [''page_title'' \<mapsto> ''Paris''] \<rparr>,
        \<lparr> metadata = Some Map.empty \<rparr>] \<rparr>"
  have h1: "schema_parse (JObj [(''query'', JStr ''capital of France'')] :: unit jsval) = Inr ''capital of France''"
    by simp
  have h2: "getEmbeddings (openAIClient ?t) ''text-embedding-3-large'' ''capital of France''
      = Inr \<lparr> data = [\<lparr> embedding = [1, 2] \<rparr>] \<rparr>"
    by (simp add: one_embedding_def)
  have h3: "data \<lparr> data = [\<lparr> embedding = [1, 2 :: int] \<rparr>] \<rparr> = \<lparr> embedding = [1, 2] \<rparr> # []"
    by simp
  have h4: "query (index ?t) \<lparr> vector = embedding \<lparr> embedding = [1, 2 :: int] \<rparr>, topK = 3, includeMetadata = True \<rparr>
      = Inr ?rs"
    by (simp add: sparse_matches_def)
  have h5: "matches ?rs \<noteq> []"
    by simp
  have h6: "map metadata (matches ?rs) = map Some [[''page_title'' \<mapsto> ''Paris''], Map.empty]"
    by simp
  show ?thesis
    using search_missing_fields_undefined [OF h1 h2 h3 h4 h5 h6] by simp
qed

subsection \<open>The endpoint host\<close>

text \<open>
  C10. With no override and no environment variable for the endpoint host, and both keys
  present, the constructor succeeds whenever the imported constructors return: it
  passes the absent host on to the embedding client and stores it, and checks nothing
  about it.
\<close>

theorem constructor_ignores_missing_host:
  assumes "default_fields fields_arg ''AZURE_HOST'' = None"
    and "env ''AZURE_HOST'' = None"
    and "truthy (resolve_pineconeApiKey (default_fields fields_arg) env)"
    and "truthy (resolve_openAIApiKey (default_fields fields_arg) env)"
    and "AzureKeyCredential m (resolve_openAIApiKey (default_fields fields_arg) env) = Inr cred"
    and "OpenAIClient m None cred = Inr oc"
    and "Pinecone m (resolve_pineconeApiKey (default_fields fields_arg) env) = Inr pc"
    and "client_index pc (resolve_pineconeIndex (default_fields fields_arg) env) = Inr ix"
  shows "\<exists>t. constructor m fields_arg env = Inr t \<and> openAIHost t = None \<and>
           openAIClient t = oc \<and> index t = ix"
proof -
  have h: "resolve_openAIHost (default_fields fields_arg) env = None"
    using assms(1,2) by (simp add: resolve_openAIHost_def js_or_def)
  show ?thesis
    using assms(3-8) h by (simp add: constructor_def Let_def)
qed

theorem constructor_ignores_missing_host_witness:
  "\<exists>t. constructor (stub_modules one_embedding paris_matches) None keys_env = Inr t \<and>
       openAIHost t = None \<and> pineconeIndex t = Some ''large-index''"
proof -
  let ?m = "stub_modules one_embedding paris_matches"
  have r: "resolve_pineconeApiKey (default_fields None) keys_env = Some ''pinecone-key''"
    "resolve_openAIApiKey (default_fields None) keys_env = Some ''azure-key''"
    "resolve_pineconeIndex (default_fields None) keys_env = Some ''large-index''"
    by (simp_all add: resolve_pineconeApiKey_def resolve_openAIApiKey_def
        resolve_pineconeIndex_def default_fields_def keys_env_def js_or_def
        DEFAULT_PINECONE_INDEX_def)
  have h1: "default_fields None ''AZURE_HOST'' = None"
    by (simp add: default_fields_def)
  have h2: "keys_env ''AZURE_HOST'' = None"
    by (simp add: keys_env_def)
  have h3: "truthy (resolve_pineconeApiKey (default_fields None) keys_env)"
    by (simp add: r)
  have h4: "truthy (resolve_openAIApiKey (default_fields None) keys_env)"
    by (simp add: r)
  have h5: "AzureKeyCredential ?m (resolve_openAIApiKey (default_fields None) keys_env) = Inr ''azure-key''"
    by (simp add: r stub_modules_def)
  have h6: "OpenAIClient ?m None ''azure-key'' = Inr (stub_openai one_embedding)"
    by (simp add: stub_modules_def)
  have h7: "Pinecone ?m (resolve_pineconeApiKey (default_fields None) keys_env) = Inr (stub_client paris_matches)"
    by (simp add: stub_modules_def)
  have h8: "client_index (stub_client paris_matches) (resolve_pineconeIndex (default_fields None) keys_env)
      = Inr (stub_index paris_matches)"
    by (simp add: stub_client_def)
  obtain t where t: "constructor ?m None keys_env = Inr t" "openAIHost t = None"
    using constructor_ignores_missing_host [OF h1 h2 h3 h4 h5 h6 h7 h8] by blast
  have "pineconeIndex t = Some ''large-index''"
    using constructor_stores_config [OF t(1)] r(3) by simp
  then show ?thesis
    using t by blast
qed

end
